theory Spec2Isabelle
  imports Main "HOL-Library.Word"
begin

section \<open>JavaScript strings\<close>

text \<open>
  A JavaScript string is a sequence of UTF-16 code units; \<open>indexOf\<close>, \<open>slice\<close> and
  \<open>substring\<close> count code units. The files are read and written with the encoding
  \<open>utf8\<close>, so the stores hold the decoded strings.
\<close>

type_synonym jschar = "16 word"
type_synonym jsstring = "jschar list"

definition asc :: "string \<Rightarrow> jsstring" where
  "asc s = map (\<lambda>c. of_char c) s"

definition en_dash :: jschar where
  "en_dash = 0x2013"

fun startsWith :: "jsstring \<Rightarrow> jsstring \<Rightarrow> bool" where
  "startsWith s [] = True"
| "startsWith [] (p # ps) = False"
| "startsWith (c # cs) (p # ps) = (c = p \<and> startsWith cs ps)"

text \<open>\<open>s.indexOf(pat)\<close>: the first position at which \<open>pat\<close> occurs, or \<open>-1\<close>.\<close>

fun indexOf_from :: "jsstring \<Rightarrow> jsstring \<Rightarrow> int \<Rightarrow> int" where
  "indexOf_from [] pat i = (if pat = [] then i else - 1)"
| "indexOf_from (c # cs) pat i =
     (if startsWith (c # cs) pat then i else indexOf_from cs pat (i + 1))"

definition indexOf :: "jsstring \<Rightarrow> jsstring \<Rightarrow> int" where
  "indexOf s pat = indexOf_from s pat 0"

definition includes_str :: "jsstring \<Rightarrow> jsstring \<Rightarrow> bool" where
  "includes_str s pat = (indexOf s pat \<noteq> - 1)"

text \<open>
  \<open>s.slice(start, stop)\<close>: a negative index counts from the end, both indices are
  clamped to the string, and a missing \<open>stop\<close> is the length.
\<close>

definition slice :: "jsstring \<Rightarrow> int \<Rightarrow> int option \<Rightarrow> jsstring" where
  "slice s start stop =
     (let len = int (length s);
          lo = (if start < 0 then max (len + start) 0 else min start len);
          hi = (case stop of
                  None \<Rightarrow> len
                | Some e \<Rightarrow> if e < 0 then max (len + e) 0 else min e len)
      in take (nat (max (hi - lo) 0)) (drop (nat lo) s))"

text \<open>\<open>parts.join(sep)\<close> on an array of strings.\<close>

fun join :: "jsstring \<Rightarrow> jsstring list \<Rightarrow> jsstring" where
  "join sep [] = []"
| "join sep [x] = x"
| "join sep (x # y # ys) = x @ sep @ join sep (y # ys)"

section \<open>The run: results, effects and the world\<close>

type_synonym path = jsstring

text \<open>
  \<open>Error msg\<close> is \<open>throw new Error(msg)\<close> of the source; \<open>ReadFileError p\<close> is the
  rejection of \<open>fs.readFile(p)\<close>; \<open>IncrementError\<close> is an exception out of
  \<open>semver.inc\<close>; \<open>PromptError\<close> is the rejection of \<open>inquirer.prompt\<close>.
\<close>

datatype error = Error jsstring | ReadFileError path | IncrementError | PromptError

definition NoRemotesError :: error where
  "NoRemotesError = Error (asc ''No git remotes found.'')"

definition PushCancelledError :: error where
  "PushCancelledError = Error (asc ''Cancel in push step'')"

text \<open>
  A step returns, throws, or ends the process with \<open>process.exit(n)\<close>, which no
  \<open>catch\<close> intercepts.
\<close>

datatype 'a completion = Return 'a | Throw error | Exit nat

datatype effect =
    WriteFile path jsstring
  | GitAdd jsstring
  | GitCommit jsstring
  | GitTag jsstring
  | GitStash
  | GitPush jsstring jsstring
  | ConsoleLog jsstring
  | ConsoleError jsstring
  | ConsoleErrorObject jsstring error

record world =
  files :: "path \<rightharpoonup> jsstring"
  trace :: "effect list"

type_synonym 'a action = "world \<Rightarrow> 'a completion \<times> world"

definition andThen :: "'a action \<Rightarrow> ('a \<Rightarrow> 'b action) \<Rightarrow> 'b action" where
  "andThen f g w =
     (case f w of
        (Return x, w') \<Rightarrow> g x w'
      | (Throw e, w') \<Rightarrow> (Throw e, w')
      | (Exit n, w') \<Rightarrow> (Exit n, w'))"

definition return :: "'a \<Rightarrow> 'a action" where
  "return x w = (Return x, w)"

definition throw :: "error \<Rightarrow> 'a action" where
  "throw e w = (Throw e, w)"

definition process_exit :: "nat \<Rightarrow> 'a action" where
  "process_exit n w = (Exit n, w)"

text \<open>\<open>await\<close> on the answer of a collaborator: its value, or its rejection thrown.\<close>

definition await :: "error + 'a \<Rightarrow> 'a action" where
  "await answer = (case answer of Inl e \<Rightarrow> throw e | Inr x \<Rightarrow> return x)"

definition perform :: "effect \<Rightarrow> unit action" where
  "perform e w = (Return (), w\<lparr>trace := trace w @ [e]\<rparr>)"

definition fs_readFile :: "path \<Rightarrow> jsstring action" where
  "fs_readFile p w =
     (case files w p of
        None \<Rightarrow> (Throw (ReadFileError p), w)
      | Some s \<Rightarrow> (Return s, w))"

definition fs_writeFile :: "path \<Rightarrow> jsstring \<Rightarrow> unit action" where
  "fs_writeFile p s w =
     (Return (), w\<lparr>files := (files w)(p \<mapsto> s), trace := trace w @ [WriteFile p s]\<rparr>)"

section \<open>VersionManager\<close>

record manager =
  file_version :: path
  file_changelog :: path
  dry_run :: bool

subsection \<open>updateChangeLog\<close>

definition changelogNew :: "jsstring \<Rightarrow> jsstring \<Rightarrow> jsstring" where
  "changelogNew changelogContent newVersionMessage =
     (let endOfTitleBlock = indexOf changelogContent (asc ''\<newline>\<newline>'') + 2;
          head = slice changelogContent 0 (Some endOfTitleBlock);
          body = newVersionMessage;
          logs = slice changelogContent endOfTitleBlock None
      in head @ body @ logs)"

definition updateChangeLog :: "manager \<Rightarrow> jsstring \<Rightarrow> unit action" where
  "updateChangeLog m newVersionMessage =
     andThen (fs_readFile (file_changelog m)) (\<lambda>changelogContent.
       let changelogShort = slice changelogContent 0 (Some 1000)
       in if dry_run m
          then perform (ConsoleLog (asc ''Dry run: changelog preview: '' @ file_changelog m
                 @ asc '':\<newline>'' @ changelogShort))
          else fs_writeFile (file_changelog m) (changelogNew changelogContent newVersionMessage))"



subsection \<open>Collaborators\<close>

text \<open>
  What the source-control adapter, the operator and the version incrementer answer
  during one run. These are the packages \<open>simple-git\<close>, \<open>inquirer\<close> and
  \<open>semver\<close>, which the manager only calls. A commit carries its message and the
  time value of \<open>new Date(date)\<close>, in milliseconds since the epoch; \<open>now\<close> is the
  time value of \<open>new Date()\<close>. \<open>None\<close> stands for \<open>null\<close> and \<open>undefined\<close>.
\<close>

record commit =
  message :: jsstring
  date :: int

record env =
  now :: int
  git_status_files :: "jsstring list"
  git_status_current :: "jsstring option"
  git_tags_latest :: "jsstring option"
  git_log :: "commit list"
  git_log_from :: "jsstring \<Rightarrow> commit list"
  git_getRemotes :: "jsstring list"
  git_diff :: jsstring
  semver_inc :: "jsstring \<Rightarrow> jsstring \<Rightarrow> jsstring option \<Rightarrow> error + jsstring option"
  prompt_list :: "jsstring \<Rightarrow> jsstring option list \<Rightarrow> error + jsstring"
  prompt_editor :: "jsstring \<Rightarrow> error + jsstring"
  prompt_checkbox :: "jsstring list \<Rightarrow> error + jsstring list"
  prompt_confirm :: "jsstring \<Rightarrow> error + bool"

text \<open>A template literal prints \<open>null\<close> for a missing value.\<close>

definition template :: "jsstring option \<Rightarrow> jsstring" where
  "template v = (case v of None \<Rightarrow> asc ''null'' | Some s \<Rightarrow> s)"

subsection \<open>getVersionFromFile, saveVersionToFile\<close>

definition is_whitespace :: "jschar \<Rightarrow> bool" where
  "is_whitespace c \<longleftrightarrow>
     c \<in> set [0x09, 0x0A, 0x0B, 0x0C, 0x0D, 0x20, 0xA0, 0x1680,
              0x2000, 0x2001, 0x2002, 0x2003, 0x2004, 0x2005, 0x2006, 0x2007,
              0x2008, 0x2009, 0x200A, 0x2028, 0x2029, 0x202F, 0x205F, 0x3000, 0xFEFF]"

definition trim :: "jsstring \<Rightarrow> jsstring" where
  "trim s = rev (dropWhile is_whitespace (rev (dropWhile is_whitespace s)))"

definition getVersionFromFile :: "path \<Rightarrow> jsstring action" where
  "getVersionFromFile filePath =
     andThen (fs_readFile filePath) (\<lambda>data. return (trim data))"

definition saveVersionToFile :: "manager \<Rightarrow> jsstring \<Rightarrow> unit action" where
  "saveVersionToFile m version =
     (if dry_run m
      then perform (ConsoleLog (asc ''Dry run: Version would be saved as '' @ version
             @ asc '' to '' @ file_version m))
      else fs_writeFile (file_version m) version)"

subsection \<open>getFormattedVersionMessage\<close>

text \<open>
  \<open>d.toISOString().substring(0, 10)\<close>: the UTC calendar date of a time value. The
  year has four digits from 0 to 9999 and a sign and six digits outside.
\<close>

fun digits :: "nat \<Rightarrow> nat \<Rightarrow> jsstring" where
  "digits 0 n = []"
| "digits (Suc k) n = digits k (n div 10) @ [of_nat (48 + n mod 10)]"

definition civil_from_days :: "int \<Rightarrow> int \<times> int \<times> int" where
  "civil_from_days days =
     (let z = days + 719468;
          era = z div 146097;
          doe = z - era * 146097;
          yoe = (doe - doe div 1460 + doe div 36524 - doe div 146096) div 365;
          doy = doe - (365 * yoe + yoe div 4 - yoe div 100);
          mp = (5 * doy + 2) div 153;
          d = doy - (153 * mp + 2) div 5 + 1;
          m = (if mp < 10 then mp + 3 else mp - 9);
          y = yoe + era * 400 + (if m \<le> 2 then 1 else 0)
      in (y, m, d))"

definition isoDate :: "int \<Rightarrow> jsstring" where
  "isoDate t =
     (case civil_from_days (t div 86400000) of (y, m, d) \<Rightarrow>
        take 10
          ((if 0 \<le> y \<and> y \<le> 9999 then digits 4 (nat y)
            else (if y < 0 then asc ''-'' else asc ''+'') @ digits 6 (nat \<bar>y\<bar>))
           @ asc ''-'' @ digits 2 (nat m) @ asc ''-'' @ digits 2 (nat d)))"

fun scan_dates :: "commit list \<Rightarrow> int \<times> int \<Rightarrow> int \<times> int" where
  "scan_dates [] dates = dates"
| "scan_dates (c # cs) (dfrom, dto) =
     scan_dates cs (if date c < dfrom then date c else dfrom,
                    if date c > dto then date c else dto)"

definition truthy :: "jsstring option \<Rightarrow> bool" where
  "truthy v = (case v of None \<Rightarrow> False | Some s \<Rightarrow> s \<noteq> [])"

definition commits_since_latest :: "env \<Rightarrow> commit list" where
  "commits_since_latest env =
     (if truthy (git_tags_latest env)
      then git_log_from env (template (git_tags_latest env))
      else git_log env)"

definition formatVersionMessage :: "int \<Rightarrow> commit list \<Rightarrow> jsstring \<Rightarrow> jsstring" where
  "formatVersionMessage today commits newVersion =
     (case scan_dates commits (today, 0) of (dfrom, dto) \<Rightarrow>
        let formattedMessages = map message commits;
            dateFrom = isoDate dfrom;
            dateTo = isoDate dto;
            title = asc ''- '' @ newVersion @ asc '' [ '' @ dateFrom @ asc '' ''
                    @ [en_dash] @ asc '' '' @ dateTo @ asc '' ]'';
            body = join (asc ''\<newline>'') (map (\<lambda>m. asc ''    -'' @ m) formattedMessages)
        in title @ asc ''\<newline>'' @ body)"

definition getFormattedVersionMessage :: "env \<Rightarrow> jsstring \<Rightarrow> jsstring action" where
  "getFormattedVersionMessage env newVersion =
     return (formatVersionMessage (now env) (commits_since_latest env) newVersion)"

subsection \<open>proposeNextVersions, promptNewVersion, promptEditMessages\<close>

record candidates =
  nextAlpha :: "jsstring option"
  nextBeta :: "jsstring option"
  nextPatch :: "jsstring option"
  nextFeature :: "jsstring option"
  nextMajor :: "jsstring option"

definition object_values :: "candidates \<Rightarrow> jsstring option list" where
  "object_values c = [nextAlpha c, nextBeta c, nextPatch c, nextFeature c, nextMajor c]"

definition proposeNextVersions :: "env \<Rightarrow> jsstring \<Rightarrow> error + candidates" where
  "proposeNextVersions env currentVersion =
     (case semver_inc env currentVersion (asc ''prerelease'') (Some (asc ''alpha'')) of
        Inl e \<Rightarrow> Inl e
      | Inr a \<Rightarrow>
     (case semver_inc env currentVersion (asc ''prerelease'') (Some (asc ''beta'')) of
        Inl e \<Rightarrow> Inl e
      | Inr b \<Rightarrow>
     (case semver_inc env currentVersion (asc ''patch'') None of
        Inl e \<Rightarrow> Inl e
      | Inr p \<Rightarrow>
     (case semver_inc env currentVersion (asc ''minor'') None of
        Inl e \<Rightarrow> Inl e
      | Inr f \<Rightarrow>
     (case semver_inc env currentVersion (asc ''major'') None of
        Inl e \<Rightarrow> Inl e
      | Inr j \<Rightarrow>
          Inr \<lparr>nextAlpha = a, nextBeta = b, nextPatch = p,
               nextFeature = f, nextMajor = j\<rparr>)))))"

definition promptNewVersion :: "env \<Rightarrow> jsstring \<Rightarrow> jsstring action" where
  "promptNewVersion env currentVersion =
     andThen (await (proposeNextVersions env currentVersion)) (\<lambda>c.
       await (prompt_list env
         (asc ''Version: '' @ currentVersion @ asc '' \<newline> Choose the new version:'')
         (object_values c)))"

definition promptEditMessages :: "env \<Rightarrow> jsstring \<Rightarrow> jsstring action" where
  "promptEditMessages env messagesString = await (prompt_editor env messagesString)"

subsection \<open>commitAndTagVersion\<close>

definition commitAndTagVersion :: "manager \<Rightarrow> jsstring \<Rightarrow> unit action" where
  "commitAndTagVersion m version =
     (if dry_run m
      then perform (ConsoleLog (asc ''Dry run: Git commit and tag for version '' @ version
             @ asc '' would be created.''))
      else andThen (perform (GitAdd (asc ''.''))) (\<lambda>_.
           andThen (perform (GitCommit (asc ''version '' @ version))) (\<lambda>_.
           perform (GitTag version))))"

subsection \<open>pushToRemote\<close>

text \<open>
  \<open>JSON.stringify\<close> on an array of strings: each string in double quotes, with the
  quote, the backslash, the control characters and lone surrogates escaped.
\<close>

definition hex_digit :: "nat \<Rightarrow> jschar" where
  "hex_digit n = (if n < 10 then of_nat (48 + n) else of_nat (87 + n))"

definition unicode_escape :: "jschar \<Rightarrow> jsstring" where
  "unicode_escape c =
     (let n = unat c
      in [0x5C, 0x75, hex_digit (n div 4096), hex_digit (n div 256 mod 16),
          hex_digit (n div 16 mod 16), hex_digit (n mod 16)])"

definition is_high_surrogate :: "jschar \<Rightarrow> bool" where
  "is_high_surrogate c \<longleftrightarrow> 0xD800 \<le> c \<and> c \<le> 0xDBFF"

definition is_low_surrogate :: "jschar \<Rightarrow> bool" where
  "is_low_surrogate c \<longleftrightarrow> 0xDC00 \<le> c \<and> c \<le> 0xDFFF"

fun quote_chars :: "jsstring \<Rightarrow> jsstring" where
  "quote_chars [] = []"
| "quote_chars [c] =
     (if c = 0x08 then [0x5C, 0x62]
      else if c = 0x09 then [0x5C, 0x74]
      else if c = 0x0A then [0x5C, 0x6E]
      else if c = 0x0C then [0x5C, 0x66]
      else if c = 0x0D then [0x5C, 0x72]
      else if c = 0x22 then [0x5C, 0x22]
      else if c = 0x5C then [0x5C, 0x5C]
      else if c < 0x20 \<or> is_high_surrogate c \<or> is_low_surrogate c then unicode_escape c
      else [c])"
| "quote_chars (c # d # ds) =
     (if is_high_surrogate c \<and> is_low_surrogate d then c # d # quote_chars ds
      else quote_chars [c] @ quote_chars (d # ds))"

definition JSON_stringify :: "jsstring list \<Rightarrow> jsstring" where
  "JSON_stringify xs =
     asc ''['' @ join (asc '','') (map (\<lambda>x. [0x22] @ quote_chars x @ [0x22]) xs) @ asc '']''"

fun push_each :: "manager \<Rightarrow> jsstring option \<Rightarrow> jsstring list \<Rightarrow> unit action" where
  "push_each m branch [] = return ()"
| "push_each m branch (remote # rest) =
     (if dry_run m
      then andThen (perform (ConsoleLog (asc ''Dry run: Changes would be pushed to remote ''
             @ remote @ asc '' on branch '' @ template branch))) (\<lambda>_.
           push_each m branch rest)
      else andThen (perform (GitPush remote (template branch))) (\<lambda>_.
           andThen (perform (ConsoleLog (asc ''Pushed to remote '' @ remote
             @ asc '' on branch '' @ template branch @ asc '' successfully.''))) (\<lambda>_.
           push_each m branch rest)))"

definition pushToRemote :: "manager \<Rightarrow> env \<Rightarrow> unit action" where
  "pushToRemote m env =
     (let branch = git_status_current env;
          remotes = git_getRemotes env
      in if length remotes = 0 then throw (Error (asc ''No git remotes found.''))
         else
           let choices = remotes
           in andThen (await (prompt_checkbox env choices)) (\<lambda>remotesSelected.
                let remotesSelectedString = JSON_stringify remotesSelected
                in andThen (perform (ConsoleLog (git_diff env))) (\<lambda>_.
                   andThen (await (prompt_confirm env
                       (asc ''Are you sure you want to push to '' @ remotesSelectedString
                        @ asc '':'' @ template branch @ asc ''?''))) (\<lambda>confirmPush.
                     if confirmPush then push_each m branch remotesSelected
                     else throw (Error (asc ''Cancel in push step''))))))"

subsection \<open>checkForUncommittedChanges, autoStash\<close>

definition checkForUncommittedChanges :: "manager \<Rightarrow> env \<Rightarrow> unit action" where
  "checkForUncommittedChanges m env =
     (if length (git_status_files env) \<noteq> 0
      then if dry_run m
           then perform (ConsoleLog (asc ''Dry run: Would check for uncommitted changes.''))
           else andThen (perform (ConsoleError (asc
                  ''Error: There are uncommitted changes. Please commit or stash them before running this script.''))) (\<lambda>_.
                process_exit 1)
      else return ())"

definition autoStash :: "manager \<Rightarrow> unit action" where
  "autoStash m =
     (if dry_run m
      then perform (ConsoleLog (asc ''Dry run: Uncommitted changes would be stashed.''))
      else andThen (perform GitStash) (\<lambda>_.
           perform (ConsoleLog (asc ''Uncommitted changes have been stashed.''))))"

subsection \<open>create\<close>

text \<open>The body of the \<open>try\<close> block, then the block with its \<open>catch\<close>.\<close>

definition create_try :: "manager \<Rightarrow> env \<Rightarrow> unit action" where
  "create_try m env =
     andThen (checkForUncommittedChanges m env) (\<lambda>_.
     andThen (getVersionFromFile (file_version m)) (\<lambda>currentVersion.
     andThen (promptNewVersion env currentVersion) (\<lambda>newVersion.
     andThen (getFormattedVersionMessage env newVersion) (\<lambda>messagesString.
     andThen (promptEditMessages env messagesString) (\<lambda>messagesStringFinal.
     andThen (updateChangeLog m messagesStringFinal) (\<lambda>_.
     andThen (saveVersionToFile m newVersion) (\<lambda>_.
     andThen (commitAndTagVersion m newVersion) (\<lambda>_.
     andThen (pushToRemote m env) (\<lambda>_.
     perform (ConsoleLog (asc ''Done!'')))))))))))"

definition create :: "manager \<Rightarrow> env \<Rightarrow> unit action" where
  "create m env w =
     (case create_try m env w of
        (Throw error, w') \<Rightarrow>
          andThen (autoStash m) (\<lambda>_.
            perform (ConsoleErrorObject (asc ''Error:'') error)) w'
      | (r, w') \<Rightarrow> (r, w'))"

text \<open>
  The effects that change the Version Store, the Changelog Store or the repository.
\<close>

fun mutating :: "effect \<Rightarrow> bool" where
  "mutating (WriteFile p s) = True"
| "mutating (GitAdd a) = True"
| "mutating (GitCommit c) = True"
| "mutating (GitTag t) = True"
| "mutating GitStash = True"
| "mutating (GitPush r b) = True"
| "mutating (ConsoleLog s) = False"
| "mutating (ConsoleError s) = False"
| "mutating (ConsoleErrorObject s e) = False"

section \<open>The release script and the scenario of the specification\<close>

text \<open>
  The script builds the manager on \<open>./version.txt\<close> and \<open>./changes.md\<close>, with
  \<open>dry_run\<close> set by the flag \<open>--dry-run\<close>. The specification's end-to-end scenario
  starts from the changelog \<open>scenario_changelog\<close>, merges the note \<open>scenario_note\<close>
  and expects \<open>scenario_expected\<close>.
\<close>

definition release_manager :: "bool \<Rightarrow> manager" where
  "release_manager dryRun =
     \<lparr>file_version = asc ''./version.txt'', file_changelog = asc ''./changes.md'',
      dry_run = dryRun\<rparr>"

definition scenario_changelog :: jsstring where
  "scenario_changelog = asc ''# Title\<newline>\<newline>Old entry\<newline>''"

definition scenario_note :: jsstring where
  "scenario_note =
     asc ''- 1.2.4 [ 2024-01-01 '' @ [en_dash] @ asc '' 2024-01-02 ]\<newline>    -fix bug''"

definition scenario_expected :: jsstring where
  "scenario_expected =
     asc ''# Title\<newline>\<newline>- 1.2.4 [ 2024-01-01 '' @ [en_dash]
       @ asc '' 2024-01-02 ]\<newline>    -fix bug\<newline>Old entry\<newline>''"

definition scenario_world :: world where
  "scenario_world =
     \<lparr>files = [asc ''./version.txt'' \<mapsto> asc ''1.2.3'',
               asc ''./changes.md'' \<mapsto> scenario_changelog],
      trace = []\<rparr>"

text \<open>
  A run to evaluate: version 1.2.3, one commit since the tag 1.2.3, the operator picks
  the patch version, keeps the note (the editor ends it with a newline) and selects
  every remote; the changed files, the remotes and the answer to the confirmation are
  parameters. The incrementer of this run is a table of the answers for 1.2.3 and
  answers \<open>null\<close> for any other version.
\<close>

definition example_inc ::
  "jsstring \<Rightarrow> jsstring \<Rightarrow> jsstring option \<Rightarrow> error + jsstring option" where
  "example_inc v release identifier =
     (if v \<noteq> asc ''1.2.3'' then Inr None
      else if release = asc ''patch'' then Inr (Some (asc ''1.2.4''))
      else if release = asc ''minor'' then Inr (Some (asc ''1.3.0''))
      else if release = asc ''major'' then Inr (Some (asc ''2.0.0''))
      else if release = asc ''prerelease'' then
        (case identifier of
           None \<Rightarrow> Inr (Some (asc ''1.2.4-0''))
         | Some i \<Rightarrow> Inr (Some (asc ''1.2.4-'' @ i @ asc ''.0'')))
      else Inr None)"

definition example_env :: "jsstring list \<Rightarrow> jsstring list \<Rightarrow> bool \<Rightarrow> env" where
  "example_env changed remotes confirm =
     \<lparr>now = 1704196800000,
      git_status_files = changed,
      git_status_current = Some (asc ''main''),
      git_tags_latest = Some (asc ''1.2.3''),
      git_log = [],
      git_log_from = (\<lambda>tag. [\<lparr>message = asc ''fix bug'', date = 1704067200000\<rparr>]),
      git_getRemotes = remotes,
      git_diff = [],
      semver_inc = example_inc,
      prompt_list = (\<lambda>msg choices.
        case choices of [a, b, Some p, f, j] \<Rightarrow> Inr p | _ \<Rightarrow> Inl PromptError),
      prompt_editor = (\<lambda>text. Inr (text @ asc ''\<newline>'')),
      prompt_checkbox = (\<lambda>choices. Inr choices),
      prompt_confirm = (\<lambda>msg. Inr confirm)\<rparr>"

text \<open>The same repository without a tag, with one commit dated after the clock.\<close>

definition future_commit_env :: env where
  "future_commit_env =
     (example_env [] [asc ''origin''] True)
       \<lparr>now := 1704067200000,
        git_tags_latest := None,
        git_log := [\<lparr>message = asc ''fix bug'', date = 1717200000000\<rparr>]\<rparr>"

section \<open>The package semver\<close>

text \<open>
  \<open>semver.inc\<close> belongs to the package \<open>semver\<close>, a dependency of the repository and not
  part of it. It is modelled here after version 7 of the package: \<open>new SemVer(version)\<close>
  reads a string by the strict grammar (at most 256 code units, trimmed, an optional
  \<open>v\<close>, three numbers without leading zeros up to \<open>MAX_SAFE_INTEGER\<close>, prerelease
  identifiers after \<open>-\<close>, build identifiers after \<open>+\<close>); the method \<open>inc\<close> changes the
  parsed version; the function \<open>inc\<close> answers the printed result, or \<open>null\<close> when the
  string does not parse or the release type is unknown. Numbers are \<open>int\<close>.
\<close>

datatype ident = Num int | Str jsstring

record semver =
  major :: int
  minor :: int
  patch :: int
  prerelease :: "ident list"
  build :: "jsstring list"

definition MAX_LENGTH :: int where
  "MAX_LENGTH = 256"

definition MAX_SAFE_INTEGER :: int where
  "MAX_SAFE_INTEGER = 9007199254740991"

definition is_digit :: "jschar \<Rightarrow> bool" where
  "is_digit c \<longleftrightarrow> 0x30 \<le> c \<and> c \<le> 0x39"

definition is_letter_dash_number :: "jschar \<Rightarrow> bool" where
  "is_letter_dash_number c \<longleftrightarrow>
     is_digit c \<or> (0x41 \<le> c \<and> c \<le> 0x5A) \<or> (0x61 \<le> c \<and> c \<le> 0x7A) \<or> c = 0x2D"

definition number_of_digits :: "jsstring \<Rightarrow> int" where
  "number_of_digits s = foldl (\<lambda>n c. 10 * n + (uint c - 48)) 0 s"

function digits_of_number :: "int \<Rightarrow> jsstring" where
  "digits_of_number n =
     (if n < 10 then [of_int (48 + n)]
      else digits_of_number (n div 10) @ [of_int (48 + n mod 10)])"
  by pat_completeness auto
termination
  by (relation "measure nat") auto

fun split_on :: "jschar \<Rightarrow> jsstring \<Rightarrow> jsstring list" where
  "split_on sep [] = [[]]"
| "split_on sep (c # cs) =
     (if c = sep then [] # split_on sep cs
      else (case split_on sep cs of
              [] \<Rightarrow> [[c]]
            | x # xs \<Rightarrow> (c # x) # xs))"

fun cut_at :: "jschar \<Rightarrow> jsstring \<Rightarrow> jsstring \<times> jsstring option" where
  "cut_at sep [] = ([], None)"
| "cut_at sep (c # cs) =
     (if c = sep then ([], Some cs)
      else (case cut_at sep cs of (a, b) \<Rightarrow> (c # a, b)))"

definition numeric_identifier :: "jsstring \<Rightarrow> bool" where
  "numeric_identifier s \<longleftrightarrow>
     s = [0x30] \<or> (s \<noteq> [] \<and> list_all is_digit s \<and> hd s \<noteq> 0x30)"

definition prerelease_identifier :: "jsstring \<Rightarrow> bool" where
  "prerelease_identifier s \<longleftrightarrow>
     numeric_identifier s \<or> (list_all is_letter_dash_number s \<and> \<not> list_all is_digit s)"

definition build_identifier :: "jsstring \<Rightarrow> bool" where
  "build_identifier s \<longleftrightarrow> s \<noteq> [] \<and> list_all is_letter_dash_number s"

definition numberify :: "jsstring \<Rightarrow> ident" where
  "numberify ident =
     (if ident \<noteq> [] \<and> list_all is_digit ident \<and> number_of_digits ident < MAX_SAFE_INTEGER
      then Num (number_of_digits ident) else Str ident)"

fun main_version :: "jsstring list \<Rightarrow> (int \<times> int \<times> int) option" where
  "main_version [ma, mi, pa] =
     (if numeric_identifier ma \<and> numeric_identifier mi \<and> numeric_identifier pa
         \<and> number_of_digits ma \<le> MAX_SAFE_INTEGER
         \<and> number_of_digits mi \<le> MAX_SAFE_INTEGER
         \<and> number_of_digits pa \<le> MAX_SAFE_INTEGER
      then Some (number_of_digits ma, number_of_digits mi, number_of_digits pa)
      else None)"
| "main_version parts = None"

definition strip_v :: "jsstring \<Rightarrow> jsstring" where
  "strip_v t = (case t of [] \<Rightarrow> [] | c # cs \<Rightarrow> if c = 0x76 then cs else c # cs)"

definition dotted :: "jsstring option \<Rightarrow> jsstring list" where
  "dotted part = (case part of None \<Rightarrow> [] | Some x \<Rightarrow> split_on 0x2E x)"

definition SemVer_parse :: "jsstring \<Rightarrow> semver option" where
  "SemVer_parse version =
     (if int (length version) > MAX_LENGTH then None
      else
        let t = strip_v (trim version);
            front = fst (cut_at 0x2B t);
            bld = dotted (snd (cut_at 0x2B t));
            main = fst (cut_at 0x2D front);
            pre = dotted (snd (cut_at 0x2D front))
        in case main_version (split_on 0x2E main) of
             None \<Rightarrow> None
           | Some (ma, mi, pa) \<Rightarrow>
               if list_all prerelease_identifier pre \<and> list_all build_identifier bld
               then Some \<lparr>major = ma, minor = mi, patch = pa,
                          prerelease = map numberify pre, build = bld\<rparr>
               else None)"

definition ident_str :: "ident \<Rightarrow> jsstring" where
  "ident_str i = (case i of Num n \<Rightarrow> digits_of_number n | Str s \<Rightarrow> s)"

definition SemVer_format :: "semver \<Rightarrow> jsstring" where
  "SemVer_format v =
     digits_of_number (major v) @ asc ''.'' @ digits_of_number (minor v) @ asc ''.''
     @ digits_of_number (patch v)
     @ (if prerelease v \<noteq> [] then asc ''-'' @ join (asc ''.'') (map ident_str (prerelease v))
        else [])"

text \<open>Number(s) for a string of digits: the nearest double, ties to even.\<close>

function excess_bits :: "int \<Rightarrow> nat" where
  "excess_bits n = (if n < 2 ^ 53 then 0 else Suc (excess_bits (n div 2)))"
  by pat_completeness auto
termination
  by (relation "measure nat") auto

definition to_double :: "int \<Rightarrow> int" where
  "to_double n =
     (let e = excess_bits n;
          q = n div 2 ^ e;
          r = n mod 2 ^ e
      in if 2 * r > 2 ^ e \<or> (2 * r = 2 ^ e \<and> odd q) then (q + 1) * 2 ^ e else q * 2 ^ e)"

definition numeric :: "jsstring \<Rightarrow> bool" where
  "numeric s \<longleftrightarrow> s \<noteq> [] \<and> list_all is_digit s"

fun string_less :: "jsstring \<Rightarrow> jsstring \<Rightarrow> bool" where
  "string_less [] [] = False"
| "string_less [] (y # ys) = True"
| "string_less (x # xs) [] = False"
| "string_less (x # xs) (y # ys) = (x < y \<or> (x = y \<and> string_less xs ys))"

definition compareIdentifiers :: "ident \<Rightarrow> ident \<Rightarrow> int" where
  "compareIdentifiers a b =
     (let anum = numeric (ident_str a);
          bnum = numeric (ident_str b)
      in if anum \<and> bnum
         then (let x = to_double (number_of_digits (ident_str a));
                   y = to_double (number_of_digits (ident_str b))
               in if x = y then 0 else if x < y then - 1 else 1)
         else if a = b then 0
         else if anum \<and> \<not> bnum then - 1
         else if bnum \<and> \<not> anum then 1
         else if string_less (ident_str a) (ident_str b) then - 1 else 1)"

text \<open>
  \<open>isNaN(x)\<close> for a prerelease identifier or \<open>undefined\<close>: a string is not NaN when
  \<open>Number\<close> reads it as a numeric literal.
\<close>

definition is_hex_digit :: "jschar \<Rightarrow> bool" where
  "is_hex_digit c \<longleftrightarrow>
     is_digit c \<or> (0x41 \<le> c \<and> c \<le> 0x46) \<or> (0x61 \<le> c \<and> c \<le> 0x66)"

definition exponent_part :: "jsstring \<Rightarrow> bool" where
  "exponent_part s =
     (case s of
        [] \<Rightarrow> True
      | c # cs \<Rightarrow>
          (c = 0x65 \<or> c = 0x45) \<and>
          (case cs of
             [] \<Rightarrow> False
           | d # ds \<Rightarrow> if d = 0x2B \<or> d = 0x2D then numeric ds else numeric (d # ds)))"

definition unsigned_decimal :: "jsstring \<Rightarrow> bool" where
  "unsigned_decimal s =
     (s = asc ''Infinity'' \<or>
      (let int_part = takeWhile is_digit s;
           rest = dropWhile is_digit s
       in case rest of
            [] \<Rightarrow> int_part \<noteq> []
          | c # cs \<Rightarrow>
              if c = 0x2E
              then (let frac = takeWhile is_digit cs
                    in (int_part \<noteq> [] \<or> frac \<noteq> [])
                       \<and> exponent_part (dropWhile is_digit cs))
              else int_part \<noteq> [] \<and> exponent_part rest))"

definition numeric_literal :: "jsstring \<Rightarrow> bool" where
  "numeric_literal s =
     (let t = trim s
      in case t of
           [] \<Rightarrow> True
         | c # cs \<Rightarrow>
             if c = 0x2B \<or> c = 0x2D then unsigned_decimal cs
             else if c = 0x30 \<and> cs \<noteq> [] \<and> (hd cs = 0x78 \<or> hd cs = 0x58)
               then tl cs \<noteq> [] \<and> list_all is_hex_digit (tl cs)
             else if c = 0x30 \<and> cs \<noteq> [] \<and> (hd cs = 0x6F \<or> hd cs = 0x4F)
               then tl cs \<noteq> [] \<and> list_all (\<lambda>d. 0x30 \<le> d \<and> d \<le> 0x37) (tl cs)
             else if c = 0x30 \<and> cs \<noteq> [] \<and> (hd cs = 0x62 \<or> hd cs = 0x42)
               then tl cs \<noteq> [] \<and> list_all (\<lambda>d. d = 0x30 \<or> d = 0x31) (tl cs)
             else unsigned_decimal t)"

definition isNaN :: "ident option \<Rightarrow> bool" where
  "isNaN x =
     (case x of
        None \<Rightarrow> True
      | Some (Num n) \<Rightarrow> False
      | Some (Str s) \<Rightarrow> \<not> numeric_literal s)"

text \<open>The loop of \<open>pre\<close>: the rightmost number of the prerelease is incremented.\<close>

fun increment_first_number :: "ident list \<Rightarrow> ident list option" where
  "increment_first_number [] = None"
| "increment_first_number (Num n # rest) = Some (Num (n + 1) # rest)"
| "increment_first_number (Str s # rest) =
     map_option ((#) (Str s)) (increment_first_number rest)"

definition increment_last_number :: "ident list \<Rightarrow> ident list option" where
  "increment_last_number p = map_option rev (increment_first_number (rev p))"

definition SemVer_inc_pre :: "jsstring option \<Rightarrow> semver \<Rightarrow> semver" where
  "SemVer_inc_pre identifier v =
     (let base = 0;
          p = (if length (prerelease v) = 0 then [Num base]
               else (case increment_last_number (prerelease v) of
                       Some q \<Rightarrow> q
                     | None \<Rightarrow> prerelease v @ [Num base]))
      in if truthy identifier
         then (let fresh = [Str (template identifier), Num base]
               in if compareIdentifiers (hd p) (Str (template identifier)) = 0
                  then (if isNaN (if length p > 1 then Some (p ! 1) else None)
                        then v\<lparr>prerelease := fresh\<rparr>
                        else v\<lparr>prerelease := p\<rparr>)
                  else v\<lparr>prerelease := fresh\<rparr>)
         else v\<lparr>prerelease := p\<rparr>)"

definition SemVer_inc_patch :: "semver \<Rightarrow> semver" where
  "SemVer_inc_patch v =
     (if length (prerelease v) = 0 then v\<lparr>patch := patch v + 1\<rparr> else v)
       \<lparr>prerelease := []\<rparr>"

definition SemVer_inc :: "jsstring \<Rightarrow> jsstring option \<Rightarrow> semver \<Rightarrow> semver option" where
  "SemVer_inc release identifier v =
     (if release = asc ''premajor'' then
        Some (SemVer_inc_pre identifier
          (v\<lparr>prerelease := [], patch := 0, minor := 0, major := major v + 1\<rparr>))
      else if release = asc ''preminor'' then
        Some (SemVer_inc_pre identifier
          (v\<lparr>prerelease := [], patch := 0, minor := minor v + 1\<rparr>))
      else if release = asc ''prepatch'' then
        Some (SemVer_inc_pre identifier (SemVer_inc_patch (v\<lparr>prerelease := []\<rparr>)))
      else if release = asc ''prerelease'' then
        Some (SemVer_inc_pre identifier
          (if length (prerelease v) = 0 then SemVer_inc_patch v else v))
      else if release = asc ''major'' then
        Some ((if minor v \<noteq> 0 \<or> patch v \<noteq> 0 \<or> length (prerelease v) = 0
               then v\<lparr>major := major v + 1\<rparr> else v)
              \<lparr>minor := 0, patch := 0, prerelease := []\<rparr>)
      else if release = asc ''minor'' then
        Some ((if patch v \<noteq> 0 \<or> length (prerelease v) = 0
               then v\<lparr>minor := minor v + 1\<rparr> else v)
              \<lparr>patch := 0, prerelease := []\<rparr>)
      else if release = asc ''patch'' then Some (SemVer_inc_patch v)
      else if release = asc ''pre'' then Some (SemVer_inc_pre identifier v)
      else None)"

definition semver_inc_package ::
  "jsstring \<Rightarrow> jsstring \<Rightarrow> jsstring option \<Rightarrow> error + jsstring option" where
  "semver_inc_package version release identifier =
     Inr (case SemVer_parse version of
            None \<Rightarrow> None
          | Some v \<Rightarrow> map_option SemVer_format (SemVer_inc release identifier v))"





text \<open>The example run with the incrementer of the package.\<close>

definition package_env :: env where
  "package_env = (example_env [] [asc ''origin''] True)\<lparr>semver_inc := semver_inc_package\<rparr>"

section \<open>Steps that only read and report\<close>

text \<open>
  An action is read-only when it leaves the files as they are and appends only console
  output to the trace.
\<close>

definition read_only :: "'a action \<Rightarrow> bool" where
  "read_only a \<longleftrightarrow>
     (\<forall>w. files (snd (a w)) = files w \<and>
          (\<exists>evs. trace (snd (a w)) = trace w @ evs \<and> list_all (\<lambda>e. \<not> mutating e) evs))"

section \<open>Properties of the string operations\<close>

lemma startsWith_take: "startsWith s pat \<longleftrightarrow> take (length pat) s = pat"
  by (induction s pat rule: startsWith.induct) auto

lemma startsWith_append:
  "length pat \<le> length u \<Longrightarrow> startsWith (u @ t) pat = startsWith u pat"
  by (simp add: startsWith_take)

lemma indexOf_from_range:
  "indexOf_from s pat i = - 1 \<or>
   (i \<le> indexOf_from s pat i \<and> indexOf_from s pat i \<le> i + int (length s))"
  by (induction s arbitrary: i) (auto, force+)





lemma indexOf_from_occurs:
  "indexOf_from s pat i \<noteq> - 1 \<Longrightarrow> 0 \<le> i \<Longrightarrow> \<exists>a b. s = a @ pat @ b"
proof (induction s arbitrary: i)
  case Nil
  then show ?case by (simp split: if_splits)
next
  case (Cons c cs)
  show ?case
  proof (cases "startsWith (c # cs) pat")
    case True
    then have "c # cs = [] @ pat @ drop (length pat) (c # cs)"
      by (metis append_Nil append_take_drop_id startsWith_take)
    then show ?thesis by blast
  next
    case False
    with Cons.prems have "indexOf_from cs pat (i + 1) \<noteq> - 1" "0 \<le> i + 1" by simp_all
    from Cons.IH[OF this] obtain a b where "cs = a @ pat @ b" by blast
    then have "c # cs = (c # a) @ pat @ b" by simp
    then show ?thesis by blast
  qed
qed

lemma indexOf_from_finds:
  "0 \<le> i \<Longrightarrow> indexOf_from (a @ pat @ b) pat i \<noteq> - 1"
proof (induction a arbitrary: i)
  case Nil
  have "startsWith (pat @ b) pat" by (simp add: startsWith_take)
  with Nil show ?case by (cases "pat @ b") auto
next
  case (Cons c a)
  then show ?case by auto
qed

lemma includes_str_iff: "includes_str s pat \<longleftrightarrow> (\<exists>a b. s = a @ pat @ b)"
  unfolding includes_str_def indexOf_def
  using indexOf_from_occurs[of s pat 0] indexOf_from_finds[of 0 _ pat] by auto

section \<open>Merging a release note into the changelog\<close>



lemma updateChangeLog_write:
  "files w (file_changelog m) = Some c \<Longrightarrow> \<not> dry_run m \<Longrightarrow>
   updateChangeLog m note w =
     (Return (), w\<lparr>files := (files w)(file_changelog m \<mapsto> changelogNew c note),
                    trace := trace w @ [WriteFile (file_changelog m) (changelogNew c note)]\<rparr>)"
  by (simp add: updateChangeLog_def andThen_def fs_readFile_def fs_writeFile_def Let_def)




text \<open>
  Claim C1, as the code has it. In the scenario of the specification the note is
  inserted as it is: the written document has no newline between \<open>-fix bug\<close> and
  \<open>Old entry\<close>. The document the specification expects is the one written when
  the note ends with a newline.
\<close>

theorem changelog_scenario_no_separator_added:
  "updateChangeLog (release_manager False) scenario_note scenario_world =
     (Return (),
      scenario_world\<lparr>files := (files scenario_world)(asc ''./changes.md'' \<mapsto>
          asc ''# Title\<newline>\<newline>- 1.2.4 [ 2024-01-01 '' @ [en_dash]
            @ asc '' 2024-01-02 ]\<newline>    -fix bugOld entry\<newline>''),
        trace := [WriteFile (asc ''./changes.md'')
          (asc ''# Title\<newline>\<newline>- 1.2.4 [ 2024-01-01 '' @ [en_dash]
            @ asc '' 2024-01-02 ]\<newline>    -fix bugOld entry\<newline>'')]\<rparr>)
   \<and> changelogNew scenario_changelog (scenario_note @ asc ''\<newline>'') = scenario_expected"
proof -
  have a: "files scenario_world (file_changelog (release_manager False)) = Some scenario_changelog"
    by (simp add: scenario_world_def release_manager_def asc_def)
  have c: "\<not> dry_run (release_manager False)"
    by (simp add: release_manager_def)
  have n: "changelogNew scenario_changelog scenario_note =
      asc ''# Title\<newline>\<newline>- 1.2.4 [ 2024-01-01 '' @ [en_dash]
            @ asc '' 2024-01-02 ]\<newline>    -fix bugOld entry\<newline>''"
    by (simp add: changelogNew_def indexOf_def slice_def Let_def scenario_changelog_def
        scenario_note_def asc_def)
  have n': "changelogNew scenario_changelog (scenario_note @ asc ''\<newline>'') = scenario_expected"
    by (simp add: changelogNew_def indexOf_def slice_def Let_def scenario_changelog_def
        scenario_note_def scenario_expected_def asc_def)
  have p: "file_changelog (release_manager False) = asc ''./changes.md''"
    by (simp add: release_manager_def)
  have tr: "trace scenario_world = []" by (simp add: scenario_world_def)
  show ?thesis
    using updateChangeLog_write[OF a c, of scenario_note] n'
    unfolding n p tr by simp
qed

text \<open>
  Claim C1, as stated, fails: the document written in the scenario is not the expected
  one.
\<close>

theorem changelog_scenario_counterexample:
  "files (snd (updateChangeLog (release_manager False) scenario_note scenario_world))
     (asc ''./changes.md'') \<noteq> Some scenario_expected"
proof -
  have a: "files scenario_world (file_changelog (release_manager False)) = Some scenario_changelog"
    by (simp add: scenario_world_def release_manager_def asc_def)
  have c: "\<not> dry_run (release_manager False)"
    by (simp add: release_manager_def)
  have n: "changelogNew scenario_changelog scenario_note \<noteq> scenario_expected"
    by (simp add: changelogNew_def indexOf_def slice_def Let_def scenario_changelog_def
        scenario_note_def scenario_expected_def asc_def)
  have p: "file_changelog (release_manager False) = asc ''./changes.md''"
    by (simp add: release_manager_def)
  show ?thesis
    using updateChangeLog_write[OF a c, of scenario_note] n unfolding p by simp
qed




section \<open>Dry run\<close>

lemma read_only_return: "read_only (return x)"
  by (simp add: read_only_def return_def)

lemma read_only_throw: "read_only (throw e)"
  by (simp add: read_only_def throw_def)

lemma read_only_process_exit: "read_only (process_exit n)"
  by (simp add: read_only_def process_exit_def)

lemma read_only_perform: "\<not> mutating e \<Longrightarrow> read_only (perform e)"
  by (simp add: read_only_def perform_def)

lemma read_only_await: "read_only (await answer)"
  by (simp add: await_def read_only_throw read_only_return split: sum.split)

lemma read_only_fs_readFile: "read_only (fs_readFile p)"
  by (simp add: read_only_def fs_readFile_def split: option.split)

lemma read_only_andThen:
  assumes f: "read_only f" and g: "\<And>x. read_only (g x)"
  shows "read_only (andThen f g)"
  unfolding read_only_def
proof
  fix w
  obtain r w1 where fw: "f w = (r, w1)" by (cases "f w")
  from f fw obtain evs1 where 1: "files w1 = files w" "trace w1 = trace w @ evs1"
    "list_all (\<lambda>e. \<not> mutating e) evs1"
    unfolding read_only_def by (metis snd_conv)
  show "files (snd (andThen f g w)) = files w \<and>
        (\<exists>evs. trace (snd (andThen f g w)) = trace w @ evs \<and> list_all (\<lambda>e. \<not> mutating e) evs)"
  proof (cases r)
    case (Return x)
    from g[of x] obtain evs2 where 2: "files (snd (g x w1)) = files w1"
      "trace (snd (g x w1)) = trace w1 @ evs2" "list_all (\<lambda>e. \<not> mutating e) evs2"
      unfolding read_only_def by blast
    have "andThen f g w = g x w1" by (simp add: andThen_def fw Return)
    with 1 2 show ?thesis by (intro conjI exI[of _ "evs1 @ evs2"]) simp_all
  next
    case (Throw e)
    then have "andThen f g w = (Throw e, w1)" by (simp add: andThen_def fw)
    with 1 show ?thesis by auto
  next
    case (Exit n)
    then have "andThen f g w = (Exit n, w1)" by (simp add: andThen_def fw)
    with 1 show ?thesis by auto
  qed
qed

lemma read_only_push_each: "dry_run m \<Longrightarrow> read_only (push_each m branch rs)"
  by (induction rs) (simp_all add: read_only_return read_only_andThen read_only_perform)

lemma read_only_checkForUncommittedChanges:
  "dry_run m \<Longrightarrow> read_only (checkForUncommittedChanges m env)"
  by (simp add: checkForUncommittedChanges_def read_only_return read_only_perform)

lemma read_only_getVersionFromFile: "read_only (getVersionFromFile p)"
  by (simp add: getVersionFromFile_def read_only_andThen read_only_fs_readFile read_only_return)

lemma read_only_promptNewVersion: "read_only (promptNewVersion env v)"
  by (simp add: promptNewVersion_def read_only_andThen read_only_await)

lemma read_only_getFormattedVersionMessage: "read_only (getFormattedVersionMessage env v)"
  by (simp add: getFormattedVersionMessage_def read_only_return)

lemma read_only_promptEditMessages: "read_only (promptEditMessages env s)"
  by (simp add: promptEditMessages_def read_only_await)

lemma read_only_updateChangeLog: "dry_run m \<Longrightarrow> read_only (updateChangeLog m s)"
  by (simp add: updateChangeLog_def Let_def read_only_andThen read_only_fs_readFile
      read_only_perform)

lemma read_only_saveVersionToFile: "dry_run m \<Longrightarrow> read_only (saveVersionToFile m v)"
  by (simp add: saveVersionToFile_def read_only_perform)

lemma read_only_commitAndTagVersion: "dry_run m \<Longrightarrow> read_only (commitAndTagVersion m v)"
  by (simp add: commitAndTagVersion_def read_only_perform)

lemma read_only_pushToRemote: "dry_run m \<Longrightarrow> read_only (pushToRemote m env)"
  by (simp add: pushToRemote_def Let_def read_only_throw read_only_andThen read_only_perform
      read_only_push_each read_only_await)

lemma read_only_autoStash: "dry_run m \<Longrightarrow> read_only (autoStash m)"
  by (simp add: autoStash_def read_only_perform)

lemma read_only_create_try: "dry_run m \<Longrightarrow> read_only (create_try m env)"
  unfolding create_try_def
  by (intro read_only_andThen read_only_checkForUncommittedChanges
      read_only_getVersionFromFile read_only_promptNewVersion
      read_only_getFormattedVersionMessage read_only_promptEditMessages
      read_only_updateChangeLog read_only_saveVersionToFile read_only_commitAndTagVersion
      read_only_pushToRemote read_only_perform) simp_all

lemma create_eq:
  "create m env =
     (\<lambda>w. case create_try m env w of
        (Throw error, w') \<Rightarrow>
          andThen (autoStash m) (\<lambda>_. perform (ConsoleErrorObject (asc ''Error:'') error)) w'
      | (r, w') \<Rightarrow> (r, w'))"
  by (rule ext) (simp add: create_def)

lemma read_only_create:
  assumes "dry_run m"
  shows "read_only (create m env)"
proof -
  have rec: "read_only (andThen (autoStash m)
      (\<lambda>_. perform (ConsoleErrorObject (asc ''Error:'') e)))" for e
    by (intro read_only_andThen read_only_autoStash[OF assms] read_only_perform) simp
  show ?thesis
    unfolding read_only_def
  proof
    fix w
    obtain r w1 where tw: "create_try m env w = (r, w1)" by (cases "create_try m env w")
    from read_only_create_try[OF assms, of env] tw obtain evs1 where
      1: "files w1 = files w" "trace w1 = trace w @ evs1" "list_all (\<lambda>e. \<not> mutating e) evs1"
      unfolding read_only_def by (metis snd_conv)
    show "files (snd (create m env w)) = files w \<and>
        (\<exists>evs. trace (snd (create m env w)) = trace w @ evs \<and> list_all (\<lambda>e. \<not> mutating e) evs)"
    proof (cases r)
      case (Throw e)
      let ?h = "andThen (autoStash m) (\<lambda>_. perform (ConsoleErrorObject (asc ''Error:'') e))"
      from rec[of e] obtain evs2 where 2: "files (snd (?h w1)) = files w1"
        "trace (snd (?h w1)) = trace w1 @ evs2" "list_all (\<lambda>e. \<not> mutating e) evs2"
        unfolding read_only_def by blast
      have "create m env w = ?h w1" by (simp add: create_def tw Throw)
      with 1 2 show ?thesis by (intro conjI exI[of _ "evs1 @ evs2"]) simp_all
    next
      case (Return x)
      then have "create m env w = (Return x, w1)" by (simp add: create_def tw)
      with 1 show ?thesis by auto
    next
      case (Exit n)
      then have "create m env w = (Exit n, w1)" by (simp add: create_def tw)
      with 1 show ?thesis by auto
    qed
  qed
qed

text \<open>
  Claim C4. In a dry run, whatever the repository holds and the operator answers,
  \<open>create\<close> leaves the Version Store and the Changelog Store as they are and performs
  no \<open>add\<close>, \<open>commit\<close>, \<open>tag\<close>, \<open>stash\<close> or \<open>push\<close>: everything it appends to
  the trace is console output.
\<close>

theorem dry_run_performs_no_mutation:
  assumes "dry_run m"
  shows "files (snd (create m env w)) = files w \<and>
         (\<exists>evs. trace (snd (create m env w)) = trace w @ evs \<and>
                list_all (\<lambda>e. \<not> mutating e) evs)"
  using read_only_create[OF assms, of env] unfolding read_only_def by blast

theorem dry_run_performs_no_mutation_witness:
  "dry_run (release_manager True) \<and>
   files (snd (create (release_manager True) (example_env [asc ''a.txt''] [asc ''origin''] True)
                 scenario_world)) = files scenario_world \<and>
   (\<exists>evs. trace (snd (create (release_manager True)
                 (example_env [asc ''a.txt''] [asc ''origin''] True) scenario_world))
             = trace scenario_world @ evs \<and> list_all (\<lambda>e. \<not> mutating e) evs)"
proof -
  have d: "dry_run (release_manager True)" by (simp add: release_manager_def)
  from dry_run_performs_no_mutation[OF d] d show ?thesis by blast
qed

section \<open>The precondition check\<close>

lemma checkForUncommittedChanges_clean:
  "git_status_files env = [] \<Longrightarrow> checkForUncommittedChanges m env w = (Return (), w)"
  by (simp add: checkForUncommittedChanges_def return_def)

lemma checkForUncommittedChanges_dirty:
  "git_status_files env \<noteq> [] \<Longrightarrow> \<not> dry_run m \<Longrightarrow>
   checkForUncommittedChanges m env w =
     (Exit 1, w\<lparr>trace := trace w @ [ConsoleError (asc
        ''Error: There are uncommitted changes. Please commit or stash them before running this script.'')]\<rparr>)"
  by (simp add: checkForUncommittedChanges_def andThen_def perform_def process_exit_def)

lemma checkForUncommittedChanges_no_throw:
  "fst (checkForUncommittedChanges m env w) \<noteq> Throw e"
  by (simp add: checkForUncommittedChanges_def andThen_def perform_def process_exit_def
      return_def)

lemma create_try_exit:
  "checkForUncommittedChanges m env w = (Exit n, w') \<Longrightarrow> create m env w = (Exit n, w')"
  by (simp add: create_def create_try_def andThen_def)

text \<open>
  Claim C8. When the status reports a changed file outside a dry run, \<open>create\<close> ends
  the process with exit status 1 after the error message and nothing else has run;
  when the status reports no changed file, the check returns and changes nothing, in
  a dry run or not.
\<close>

theorem uncommitted_changes_exit:
  "(git_status_files env \<noteq> [] \<and> \<not> dry_run m \<longrightarrow>
      create m env w =
        (Exit 1, w\<lparr>trace := trace w @ [ConsoleError (asc
           ''Error: There are uncommitted changes. Please commit or stash them before running this script.'')]\<rparr>))
   \<and> (git_status_files env = [] \<longrightarrow> checkForUncommittedChanges m env w = (Return (), w))"
  using create_try_exit[OF checkForUncommittedChanges_dirty, of env m w]
    checkForUncommittedChanges_clean[of env m w] by blast

theorem uncommitted_changes_exit_witness:
  "fst (create (release_manager False) (example_env [asc ''a.txt''] [asc ''origin''] True)
         scenario_world) = Exit 1
   \<and> trace (snd (create (release_manager False)
         (example_env [asc ''a.txt''] [asc ''origin''] True) scenario_world)) =
       [ConsoleError (asc
         ''Error: There are uncommitted changes. Please commit or stash them before running this script.'')]
   \<and> checkForUncommittedChanges (release_manager False) (example_env [] [asc ''origin''] True)
         scenario_world = (Return (), scenario_world)
   \<and> checkForUncommittedChanges (release_manager True) (example_env [] [asc ''origin''] True)
         scenario_world = (Return (), scenario_world)"
proof -
  have d: "\<not> dry_run (release_manager False)" by (simp add: release_manager_def)
  have f: "git_status_files (example_env [asc ''a.txt''] [asc ''origin''] True) \<noteq> []"
    by (simp add: example_env_def)
  have g: "git_status_files (example_env [] [asc ''origin''] True) = []"
    by (simp add: example_env_def)
  have t: "trace scenario_world = []" by (simp add: scenario_world_def)
  from uncommitted_changes_exit[of "example_env [asc ''a.txt''] [asc ''origin''] True"
      "release_manager False" scenario_world]
    uncommitted_changes_exit[of "example_env [] [asc ''origin''] True"
      "release_manager False" scenario_world]
    uncommitted_changes_exit[of "example_env [] [asc ''origin''] True"
      "release_manager True" scenario_world]
    d f g t
  show ?thesis by simp
qed

section \<open>Errors and recovery\<close>

lemma autoStash_eq:
  "autoStash m w =
     (Return (), w\<lparr>trace := trace w @
        (if dry_run m
         then [ConsoleLog (asc ''Dry run: Uncommitted changes would be stashed.'')]
         else [GitStash, ConsoleLog (asc ''Uncommitted changes have been stashed.'')])\<rparr>)"
  by (simp add: autoStash_def andThen_def perform_def)

lemma create_caught:
  "create_try m env w = (Throw e, w') \<Longrightarrow>
   create m env w =
     (Return (), w'\<lparr>trace := trace w' @
        (if dry_run m
         then [ConsoleLog (asc ''Dry run: Uncommitted changes would be stashed.'')]
         else [GitStash, ConsoleLog (asc ''Uncommitted changes have been stashed.'')])
        @ [ConsoleErrorObject (asc ''Error:'') e]\<rparr>)"
  by (simp add: create_def andThen_def autoStash_eq perform_def)


lemma pushToRemote_no_remotes:
  "git_getRemotes env = [] \<Longrightarrow> pushToRemote m env w = (Throw NoRemotesError, w)"
  by (simp add: pushToRemote_def throw_def NoRemotesError_def)

lemma push_declined:
  assumes "\<not> dry_run m"
    and "git_status_files env = []"
    and "files w (file_version m) = Some data"
    and "proposeNextVersions env (trim data) = Inr c"
    and "prompt_list env
           (asc ''Version: '' @ trim data @ asc '' \<newline> Choose the new version:'')
           (object_values c) = Inr v"
    and "prompt_editor env
           (formatVersionMessage (now env) (commits_since_latest env) v) = Inr msg"
    and "files w (file_changelog m) = Some cl"
    and "git_getRemotes env \<noteq> []"
    and "prompt_checkbox env (git_getRemotes env) = Inr selected"
    and "prompt_confirm env
           (asc ''Are you sure you want to push to '' @ JSON_stringify selected
            @ asc '':'' @ template (git_status_current env) @ asc ''?'') = Inr False"
  shows "create_try m env w =
     (Throw PushCancelledError,
      w\<lparr>files := (files w)(file_changelog m \<mapsto> changelogNew cl msg, file_version m \<mapsto> v),
        trace := trace w @
          [WriteFile (file_changelog m) (changelogNew cl msg),
           WriteFile (file_version m) v,
           GitAdd (asc ''.''),
           GitCommit (asc ''version '' @ v),
           GitTag v,
           ConsoleLog (git_diff env)]\<rparr>)"
  using assms
  by (simp add: create_try_def andThen_def checkForUncommittedChanges_def return_def
      getVersionFromFile_def fs_readFile_def promptNewVersion_def
      getFormattedVersionMessage_def promptEditMessages_def updateChangeLog_def await_def
      fs_writeFile_def saveVersionToFile_def commitAndTagVersion_def perform_def
      pushToRemote_def throw_def PushCancelledError_def Let_def)


lemma example_propose:
  "proposeNextVersions (example_env changed remotes confirm) (trim (asc ''1.2.3'')) =
     Inr \<lparr>nextAlpha = Some (asc ''1.2.4-alpha.0''), nextBeta = Some (asc ''1.2.4-beta.0''),
          nextPatch = Some (asc ''1.2.4''), nextFeature = Some (asc ''1.3.0''),
          nextMajor = Some (asc ''2.0.0'')\<rparr>"
  by (simp add: proposeNextVersions_def example_env_def example_inc_def trim_def
      is_whitespace_def asc_def)



text \<open>
  Claim C7. Outside a dry run, when the run reaches the confirmation and the operator
  declines, \<open>create\<close> returns after reporting \<open>PushCancelledError\<close>; the changelog
  and the version are written, the commit and the tag of step 8 are made, and the
  only effect on the repository after them is the stash of the recovery.
\<close>

theorem push_declined_keeps_commit_and_tag:
  assumes "\<not> dry_run m"
    and "git_status_files env = []"
    and "files w (file_version m) = Some data"
    and "proposeNextVersions env (trim data) = Inr c"
    and "prompt_list env
           (asc ''Version: '' @ trim data @ asc '' \<newline> Choose the new version:'')
           (object_values c) = Inr v"
    and "prompt_editor env
           (formatVersionMessage (now env) (commits_since_latest env) v) = Inr msg"
    and "files w (file_changelog m) = Some cl"
    and "git_getRemotes env \<noteq> []"
    and "prompt_checkbox env (git_getRemotes env) = Inr selected"
    and "prompt_confirm env
           (asc ''Are you sure you want to push to '' @ JSON_stringify selected
            @ asc '':'' @ template (git_status_current env) @ asc ''?'') = Inr False"
  shows "create m env w =
     (Return (),
      w\<lparr>files := (files w)(file_changelog m \<mapsto> changelogNew cl msg, file_version m \<mapsto> v),
        trace := trace w @
          [WriteFile (file_changelog m) (changelogNew cl msg),
           WriteFile (file_version m) v,
           GitAdd (asc ''.''),
           GitCommit (asc ''version '' @ v),
           GitTag v,
           ConsoleLog (git_diff env),
           GitStash,
           ConsoleLog (asc ''Uncommitted changes have been stashed.''),
           ConsoleErrorObject (asc ''Error:'') PushCancelledError]\<rparr>)"
  using create_caught[OF push_declined[OF assms]] assms(1) by simp

theorem push_declined_keeps_commit_and_tag_witness:
  "create (release_manager False) (example_env [] [asc ''origin''] False) scenario_world =
     (Return (),
      scenario_world\<lparr>files := (files scenario_world)
          (asc ''./changes.md'' \<mapsto> changelogNew scenario_changelog
             (formatVersionMessage 1704196800000
                [\<lparr>message = asc ''fix bug'', date = 1704067200000\<rparr>] (asc ''1.2.4'')
              @ asc ''\<newline>''),
           asc ''./version.txt'' \<mapsto> asc ''1.2.4''),
        trace :=
          [WriteFile (asc ''./changes.md'') (changelogNew scenario_changelog
             (formatVersionMessage 1704196800000
                [\<lparr>message = asc ''fix bug'', date = 1704067200000\<rparr>] (asc ''1.2.4'')
              @ asc ''\<newline>'')),
           WriteFile (asc ''./version.txt'') (asc ''1.2.4''),
           GitAdd (asc ''.''),
           GitCommit (asc ''version 1.2.4''),
           GitTag (asc ''1.2.4''),
           ConsoleLog [],
           GitStash,
           ConsoleLog (asc ''Uncommitted changes have been stashed.''),
           ConsoleErrorObject (asc ''Error:'') PushCancelledError]\<rparr>)"
proof -
  let ?m = "release_manager False"
  let ?env = "example_env [] [asc ''origin''] False"
  let ?c = "\<lparr>nextAlpha = Some (asc ''1.2.4-alpha.0''), nextBeta = Some (asc ''1.2.4-beta.0''),
          nextPatch = Some (asc ''1.2.4''), nextFeature = Some (asc ''1.3.0''),
          nextMajor = Some (asc ''2.0.0'')\<rparr>"
  let ?msg = "formatVersionMessage 1704196800000
                [\<lparr>message = asc ''fix bug'', date = 1704067200000\<rparr>] (asc ''1.2.4'')
              @ asc ''\<newline>''"
  have h1: "\<not> dry_run ?m" by (simp add: release_manager_def)
  have h2: "git_status_files ?env = []" by (simp add: example_env_def)
  have h3: "files scenario_world (file_version ?m) = Some (asc ''1.2.3'')"
    by (simp add: scenario_world_def release_manager_def asc_def)
  have h4: "proposeNextVersions ?env (trim (asc ''1.2.3'')) = Inr ?c"
    by (rule example_propose)
  have h5: "prompt_list ?env
           (asc ''Version: '' @ trim (asc ''1.2.3'') @ asc '' \<newline> Choose the new version:'')
           (object_values ?c) = Inr (asc ''1.2.4'')"
    by (simp add: example_env_def object_values_def)
  have h6: "prompt_editor ?env
           (formatVersionMessage (now ?env) (commits_since_latest ?env) (asc ''1.2.4''))
            = Inr ?msg"
    by (simp add: example_env_def commits_since_latest_def truthy_def template_def asc_def)
  have h7: "files scenario_world (file_changelog ?m) = Some scenario_changelog"
    by (simp add: scenario_world_def release_manager_def asc_def)
  have h8: "git_getRemotes ?env \<noteq> []" by (simp add: example_env_def)
  have h9: "prompt_checkbox ?env (git_getRemotes ?env) = Inr [asc ''origin'']"
    by (simp add: example_env_def)
  have h10: "prompt_confirm ?env
           (asc ''Are you sure you want to push to '' @ JSON_stringify [asc ''origin'']
            @ asc '':'' @ template (git_status_current ?env) @ asc ''?'') = Inr False"
    by (simp add: example_env_def)
  have p: "file_changelog ?m = asc ''./changes.md''" "file_version ?m = asc ''./version.txt''"
    by (simp_all add: release_manager_def)
  have e: "git_diff ?env = []" by (simp add: example_env_def)
  have t: "trace scenario_world = []" by (simp add: scenario_world_def)
  have vs: "asc ''version '' @ asc ''1.2.4'' = asc ''version 1.2.4''" by (simp add: asc_def)
  from push_declined_keeps_commit_and_tag[OF h1 h2 h3 h4 h5 h6 h7 h8 h9 h10]
  show ?thesis unfolding p e t vs by simp
qed

section \<open>The release note\<close>

lemma scan_dates_eq:
  "scan_dates cs (f, t) =
     (Min (insert f (date ` set cs)), Max (insert t (date ` set cs)))"
proof (induction cs arbitrary: f t)
  case Nil
  then show ?case by simp
next
  case (Cons c cs)
  have fin: "finite (date ` set cs)" by simp
  have 1: "Min (insert (if date c < f then date c else f) (date ` set cs)) =
           Min (insert f (insert (date c) (date ` set cs)))"
    using fin by (cases "date ` set cs = {}") (auto simp: min_def)
  have 2: "Max (insert (if t < date c then date c else t) (date ` set cs)) =
           Max (insert t (insert (date c) (date ` set cs)))"
    using fin by (cases "date ` set cs = {}") (auto simp: max_def)
  show ?case by (simp add: Cons.IH 1 2)
qed

lemma formatVersionMessage_in_range:
  assumes "commits \<noteq> []"
    and "\<forall>c \<in> set commits. 0 \<le> date c \<and> date c \<le> today"
  shows "formatVersionMessage today commits v =
     asc ''- '' @ v @ asc '' [ '' @ isoDate (Min (date ` set commits)) @ asc '' ''
       @ [en_dash] @ asc '' '' @ isoDate (Max (date ` set commits)) @ asc '' ]''
       @ asc ''\<newline>''
       @ join (asc ''\<newline>'') (map (\<lambda>c. asc ''    -'' @ message c) commits)"
proof -
  let ?S = "date ` set commits"
  from assms(1) have ne: "?S \<noteq> {}" by simp
  have fin: "finite ?S" by simp
  from Min_in[OF fin ne] obtain c1 where "c1 \<in> set commits" "Min ?S = date c1" by auto
  with assms(2) have "Min ?S \<le> today" by simp
  then have a: "Min (insert today ?S) = Min ?S"
    by (simp only: Min_insert[OF fin ne] min.absorb2)
  from Max_in[OF fin ne] obtain c2 where "c2 \<in> set commits" "Max ?S = date c2" by auto
  with assms(2) have "0 \<le> Max ?S" by simp
  then have b: "Max (insert 0 ?S) = Max ?S"
    by (simp only: Max_insert[OF fin ne] max.absorb2)
  have sc: "scan_dates commits (today, 0) = (Min ?S, Max ?S)"
    by (simp only: scan_dates_eq a b)
  have mp: "map (\<lambda>m. asc ''    -'' @ m) (map message commits) =
            map (\<lambda>c. asc ''    -'' @ message c) commits"
    by (simp add: comp_def)
  show ?thesis
    unfolding formatVersionMessage_def sc Let_def mp by simp
qed

lemma iso1: "isoDate 1704067200000 = asc ''2024-01-01''" by code_simp
lemma iso2: "isoDate 1717200000000 = asc ''2024-06-01''" by code_simp

lemma fmt_future:
  "formatVersionMessage 1704067200000
      [\<lparr>message = asc ''fix bug'', date = 1717200000000\<rparr>] (asc ''1.2.4'') =
     asc ''- 1.2.4 [ 2024-01-01 '' @ [en_dash] @ asc '' 2024-06-01 ]\<newline>    -fix bug''"
  by (simp add: formatVersionMessage_def iso1 iso2 asc_def)

text \<open>
  Claim C6 at a commit dated after the clock: with the clock at 2024-01-01 and one
  commit dated 2024-06-01, the title starts at 2024-01-01, the date of the clock,
  and not at the date of the earliest commit.
\<close>

theorem version_message_future_commit:
  "getFormattedVersionMessage future_commit_env (asc ''1.2.4'') w =
     (Return (asc ''- 1.2.4 [ 2024-01-01 '' @ [en_dash]
        @ asc '' 2024-06-01 ]\<newline>    -fix bug''), w)"
  by (simp add: getFormattedVersionMessage_def return_def commits_since_latest_def
      future_commit_env_def example_env_def truthy_def fmt_future)


section \<open>The proposed versions\<close>












lemma proposeNextVersions_invalid:
  assumes "semver_inc env = semver_inc_package" and "SemVer_parse version = None"
  shows "proposeNextVersions env version =
     Inr \<lparr>nextAlpha = None, nextBeta = None, nextPatch = None,
          nextFeature = None, nextMajor = None\<rparr>"
  unfolding proposeNextVersions_def assms(1) semver_inc_package_def assms(2)
  by simp


lemma package_env_inc: "semver_inc package_env = semver_inc_package"
  by (simp add: package_env_def)




text \<open>
  Claim C2, as the code has it. For a current version that does not parse,
  \<open>proposeNextVersions\<close> does not fail: each of the five candidates is \<open>null\<close>, and
  \<open>promptNewVersion\<close> hands the five \<open>null\<close>s to the list prompt as its choices.
\<close>

theorem invalid_version_gives_null_candidates:
  assumes "semver_inc env = semver_inc_package" and "SemVer_parse version = None"
  shows "proposeNextVersions env version =
           Inr \<lparr>nextAlpha = None, nextBeta = None, nextPatch = None,
                nextFeature = None, nextMajor = None\<rparr>
         \<and> promptNewVersion env version =
           await (prompt_list env
             (asc ''Version: '' @ version @ asc '' \<newline> Choose the new version:'')
             [None, None, None, None, None])"
proof -
  have "andThen (return x) g = g x" for x :: candidates and g :: "candidates \<Rightarrow> jsstring action"
    by (rule ext) (simp add: andThen_def return_def)
  then show ?thesis
    using proposeNextVersions_invalid[OF assms]
    by (simp add: promptNewVersion_def await_def object_values_def)
qed

theorem invalid_version_gives_null_candidates_witness:
  "proposeNextVersions package_env (asc ''not-a-version'') =
           Inr \<lparr>nextAlpha = None, nextBeta = None, nextPatch = None,
                nextFeature = None, nextMajor = None\<rparr>
         \<and> promptNewVersion package_env (asc ''not-a-version'') =
           await (prompt_list package_env
             (asc ''Version: '' @ asc ''not-a-version'' @ asc '' \<newline> Choose the new version:'')
             [None, None, None, None, None])"
proof -
  have p: "SemVer_parse (asc ''not-a-version'') = None" by code_simp
  from invalid_version_gives_null_candidates[OF package_env_inc p] show ?thesis .
qed

text \<open>
  Claim C2, as stated, fails: the string \<open>1.2\<close> does not parse, and
  \<open>proposeNextVersions\<close> returns five \<open>null\<close> candidates instead of failing.
\<close>

theorem invalid_version_no_error:
  "SemVer_parse (asc ''1.2'') = None
   \<and> proposeNextVersions package_env (asc ''1.2'') =
       Inr \<lparr>nextAlpha = None, nextBeta = None, nextPatch = None,
            nextFeature = None, nextMajor = None\<rparr>"
proof -
  have p: "SemVer_parse (asc ''1.2'') = None" by code_simp
  from proposeNextVersions_invalid[OF package_env_inc p] p show ?thesis by simp
qed

end
